theory Spec2Isabelle
  imports Main "HOL-Library.Char_ord" "HOL-Library.List_Lexorder" "HOL-Library.FSet"
begin

section \<open>The Yara plugins of Spike Guard (plugins/yara/plugins\_yara.cpp)\<close>

text \<open>
  The file defines the class \<open>YaraPlugin\<close>, whose member function \<open>scan\<close> turns the
  matches of a Yara engine into a \<open>Result\<close>, and four concrete plugins that call
  \<open>scan\<close> with fixed arguments. The headers it includes (\<open>yara_wrapper.h\<close>,
  \<open>plugin_interface.h\<close>, \<open>auto_register.h\<close>) are not part of the sources at hand: the
  engine is a parameter of the model, and \<open>Result\<close> and the plugin catalog are
  modelled from the specification.

  Strings are \<open>std::string\<close>: byte sequences, here \<^typ>\<open>string\<close>. The order of
  \<open>std::set<std::string>\<close> is \<open>std::less\<close>: lexicographic on bytes compared as
  unsigned values, a proper prefix being smaller. That is the order of
  \<^typ>\<open>char list\<close> given by \<open>Char_ord\<close> and \<open>List_Lexorder\<close>.
\<close>

subsection \<open>Result\<close>

text \<open>
  Modelled from the spec: the class \<open>Result\<close> of \<open>plugin_interface.h\<close>, which is
  missing. The specification's Finding has a severity (default: lowest/none), a summary
  that is set only on a match, and an append-only ordered sequence of information lines.
  The three levels are those the source names.
\<close>

datatype LEVEL = NO_OPINION | SUSPICIOUS | MALICIOUS

record Result =
  level :: LEVEL
  summary :: "string option"
  information :: "string list"

definition new_Result :: Result where
  "new_Result = \<lparr>level = NO_OPINION, summary = None, information = []\<rparr>"

definition set_level :: "LEVEL \<Rightarrow> Result \<Rightarrow> Result" where
  "set_level l res = res\<lparr>level := l\<rparr>"

definition set_summary :: "string \<Rightarrow> Result \<Rightarrow> Result" where
  "set_summary s res = res\<lparr>summary := Some s\<rparr>"

definition add_information :: "string \<Rightarrow> Result \<Rightarrow> Result" where
  "add_information s res = res\<lparr>information := information res @ [s]\<rparr>"

subsection \<open>The engine and its matches\<close>

text \<open>
  A match of the engine (\<open>yara::matches\<close> is a sequence of pointers to them). The source
  uses two members: \<open>operator[]\<close>, which maps the name of a meta field to a string, and
  \<open>get_found_strings\<close>, which returns a \<open>std::set<std::string>\<close>. What \<open>operator[]\<close>
  returns for a name the rule does not define is the engine's business, so it is a total
  function here. A \<open>std::set\<close> is finite and has no duplicates: a finite set.
\<close>

record Match =
  operator_index :: "string \<Rightarrow> string"
  get_found_strings :: "string fset"

text \<open>
  The engine \<open>yara::Yara\<close> is a parameter: a type \<open>'e\<close> of engine states (which stands
  for everything the engine's answers depend on, the files on disk included) and its two
  member functions used by the source, each returning its value and the next state.
\<close>

record 'e Yara_ops =
  load_rules :: "'e \<Rightarrow> string \<Rightarrow> bool \<times> 'e"
  scan_file :: "'e \<Rightarrow> string \<Rightarrow> Match list \<times> 'e"

text \<open>Of \<open>sg::PE\<close> the source uses only the path.\<close>

record PE =
  get_path :: string

subsection \<open>YaraPlugin\<close>

text \<open>The two data members, \<open>_rule_file\<close> and \<open>_engine\<close>.\<close>

record 'e YaraPlugin =
  rule_file :: string
  engine :: 'e

definition YaraPlugin :: "string \<Rightarrow> 'e \<Rightarrow> 'e YaraPlugin" where
  "YaraPlugin rf e = \<lparr>rule_file = rf, engine = e\<rparr>"

text \<open>
  \<open>_load_rules\<close>. The error stream is the list of messages written so far; the message
  is what the source sends after \<open>PRINT_ERROR\<close> (a macro of a missing header).
\<close>

definition YaraPlugin_load_rules ::
  "'e Yara_ops \<Rightarrow> 'e YaraPlugin \<Rightarrow> string list \<Rightarrow> bool \<times> 'e YaraPlugin \<times> string list" where
  "YaraPlugin_load_rules ops p err =
     (case load_rules ops (engine p) (rule_file p) of
        (ok, e') \<Rightarrow>
          if \<not> ok then (False, p\<lparr>engine := e'\<rparr>, err @ [''Could not load '' @ rule_file p @ ''!''])
          else (True, p\<lparr>engine := e'\<rparr>, err))"

text \<open>
  The inner loop of \<open>scan\<close> over the set \<open>found\<close>, given as the sequence its iterator
  visits; \<open>"\t"\<close> is the byte 9.
\<close>

fun add_found :: "string list \<Rightarrow> Result \<Rightarrow> Result" where
  "add_found [] res = res"
| "add_found (s # ss) res = add_found ss (add_information (CHR 0x09 # s) res)"

text \<open>
  The outer loop of \<open>scan\<close> over the matches. An iterator of \<open>std::set\<close> visits the
  elements in increasing order: \<^const>\<open>sorted_list_of_fset\<close>.
\<close>

fun add_matches :: "Match list \<Rightarrow> string \<Rightarrow> bool \<Rightarrow> Result \<Rightarrow> Result" where
  "add_matches [] meta_field_name show_strings res = res"
| "add_matches (m # ms) meta_field_name show_strings res =
     add_matches ms meta_field_name show_strings
       (if \<not> show_strings then add_information (operator_index m meta_field_name) res
        else add_found (sorted_list_of_fset (get_found_strings m))
               (add_information (operator_index m meta_field_name @ '' String(s) found:'') res))"

text \<open>\<open>scan\<close> returns the result, the plugin with its engine updated, and the error stream.\<close>

definition scan ::
  "'e Yara_ops \<Rightarrow> 'e YaraPlugin \<Rightarrow> PE \<Rightarrow> string \<Rightarrow> LEVEL \<Rightarrow> string \<Rightarrow> bool \<Rightarrow> string list
     \<Rightarrow> Result \<times> 'e YaraPlugin \<times> string list" where
  "scan ops p pe summ lvl meta_field_name show_strings err =
     (let res = new_Result in
      case YaraPlugin_load_rules ops p err of
        (ok, p1, err1) \<Rightarrow>
          if \<not> ok then (res, p1, err1)
          else
            (case scan_file ops (engine p1) (get_path pe) of
               (m, e2) \<Rightarrow>
                 if length m > 0 then
                   (add_matches m meta_field_name show_strings
                      (set_summary summ (set_level lvl res)),
                    p1\<lparr>engine := e2\<rparr>, err1)
                 else (res, p1\<lparr>engine := e2\<rparr>, err1)))"

subsection \<open>The four plugins\<close>

definition ClamavPlugin :: "'e \<Rightarrow> 'e YaraPlugin" where
  "ClamavPlugin e = YaraPlugin ''yara_rules/clamav.yara'' e"

definition ClamavPlugin_analyze ::
  "'e Yara_ops \<Rightarrow> 'e YaraPlugin \<Rightarrow> PE \<Rightarrow> string list \<Rightarrow> Result \<times> 'e YaraPlugin \<times> string list" where
  "ClamavPlugin_analyze ops p pe err =
     scan ops p pe ''Matching ClamAV signature(s):'' MALICIOUS ''signature'' False err"

definition ClamavPlugin_get_id :: string where
  "ClamavPlugin_get_id = ''clamav''"

definition ClamavPlugin_get_description :: string where
  "ClamavPlugin_get_description = ''Scans the binary with ClamAV virus definitions.''"

definition CompilerDetectionPlugin :: "'e \<Rightarrow> 'e YaraPlugin" where
  "CompilerDetectionPlugin e = YaraPlugin ''yara_rules/compilers.yara'' e"

definition CompilerDetectionPlugin_analyze ::
  "'e Yara_ops \<Rightarrow> 'e YaraPlugin \<Rightarrow> PE \<Rightarrow> string list \<Rightarrow> Result \<times> 'e YaraPlugin \<times> string list" where
  "CompilerDetectionPlugin_analyze ops p pe err =
     scan ops p pe ''Matching compiler(s):'' NO_OPINION ''description'' False err"

definition CompilerDetectionPlugin_get_id :: string where
  "CompilerDetectionPlugin_get_id = ''compilers''"

definition CompilerDetectionPlugin_get_description :: string where
  "CompilerDetectionPlugin_get_description =
     ''Tries to determine which compiler generated the binary.''"

definition PEiDPlugin :: "'e \<Rightarrow> 'e YaraPlugin" where
  "PEiDPlugin e = YaraPlugin ''yara_rules/peid.yara'' e"

definition PEiDPlugin_analyze ::
  "'e Yara_ops \<Rightarrow> 'e YaraPlugin \<Rightarrow> PE \<Rightarrow> string list \<Rightarrow> Result \<times> 'e YaraPlugin \<times> string list" where
  "PEiDPlugin_analyze ops p pe err =
     scan ops p pe ''PEiD Signature:'' SUSPICIOUS ''packer_name'' False err"

definition PEiDPlugin_get_id :: string where
  "PEiDPlugin_get_id = ''peid''"

definition PEiDPlugin_get_description :: string where
  "PEiDPlugin_get_description = ''Returns the PEiD signature of the binary.''"

definition SuspiciousStringsPlugin :: "'e \<Rightarrow> 'e YaraPlugin" where
  "SuspiciousStringsPlugin e = YaraPlugin ''yara_rules/suspicious_strings.yara'' e"

definition SuspiciousStringsPlugin_analyze ::
  "'e Yara_ops \<Rightarrow> 'e YaraPlugin \<Rightarrow> PE \<Rightarrow> string list \<Rightarrow> Result \<times> 'e YaraPlugin \<times> string list" where
  "SuspiciousStringsPlugin_analyze ops p pe err =
     scan ops p pe ''Strings found in the binary may indicate undesirable behavior:''
       SUSPICIOUS ''description'' True err"

definition SuspiciousStringsPlugin_get_id :: string where
  "SuspiciousStringsPlugin_get_id = ''strings''"

definition SuspiciousStringsPlugin_get_description :: string where
  "SuspiciousStringsPlugin_get_description =
     ''Looks for suspicious strings (anti-VM, process names...).''"

subsection \<open>A sequence of calls\<close>

text \<open>
  A host calling the \<open>analyze\<close> of one plugin on a sequence of targets, one after the
  other: the plugin and the error stream after the last call.
\<close>

fun analyze_calls ::
  "('e YaraPlugin \<Rightarrow> PE \<Rightarrow> string list \<Rightarrow> Result \<times> 'e YaraPlugin \<times> string list)
     \<Rightarrow> 'e YaraPlugin \<Rightarrow> PE list \<Rightarrow> string list \<Rightarrow> 'e YaraPlugin \<times> string list" where
  "analyze_calls an p [] err = (p, err)"
| "analyze_calls an p (pe # pes) err =
     (case an p pe err of (res, p1, err1) \<Rightarrow> analyze_calls an p1 pes err1)"

subsection \<open>The plugin catalog\<close>

text \<open>
  Modelled from the spec: the template \<open>AutoRegister\<close> of \<open>auto_register.h\<close> and the
  catalog it fills, which are missing. The specification's catalog holds detector
  descriptors (id and description), offers enumeration and lookup by id, and treats the
  registration of an id that is already registered as a configuration error that is
  reported, the catalog keeping its earlier entry.
\<close>

record DetectorDescriptor =
  det_id :: string
  det_description :: string

datatype error = ConfigurationError string

definition lookup_by_id :: "string \<Rightarrow> DetectorDescriptor list \<Rightarrow> DetectorDescriptor option" where
  "lookup_by_id i cat = find (\<lambda>d. det_id d = i) cat"

definition register_detector ::
  "DetectorDescriptor \<Rightarrow> DetectorDescriptor list \<Rightarrow> error + DetectorDescriptor list" where
  "register_detector d cat =
     (case lookup_by_id (det_id d) cat of
        Some _ \<Rightarrow> Inl (ConfigurationError (det_id d))
      | None \<Rightarrow> Inr (cat @ [d]))"

fun register_all ::
  "DetectorDescriptor list \<Rightarrow> DetectorDescriptor list \<Rightarrow> error + DetectorDescriptor list" where
  "register_all [] cat = Inr cat"
| "register_all (d # ds) cat =
     (case register_detector d cat of
        Inl e \<Rightarrow> Inl e
      | Inr cat' \<Rightarrow> register_all ds cat')"

text \<open>
  The four registrations at the end of the source file, in the order of their
  definitions, with the ids and descriptions the plugins return.
\<close>

definition auto_registered :: "DetectorDescriptor list" where
  "auto_registered =
     [\<lparr>det_id = ClamavPlugin_get_id, det_description = ClamavPlugin_get_description\<rparr>,
      \<lparr>det_id = CompilerDetectionPlugin_get_id,
       det_description = CompilerDetectionPlugin_get_description\<rparr>,
      \<lparr>det_id = PEiDPlugin_get_id, det_description = PEiDPlugin_get_description\<rparr>,
      \<lparr>det_id = SuspiciousStringsPlugin_get_id,
       det_description = SuspiciousStringsPlugin_get_description\<rparr>]"

subsection \<open>Sample engines and matches\<close>

text \<open>
  Instances of the engine parameter, used to run the model on concrete inputs. The first
  engine has no state: loading always gives the same answer and every file has the same
  matches. The state of the second counts the calls of \<open>load_rules\<close>; the first call
  fails (the rule file is not there yet) and every later one succeeds.
\<close>

definition fixed_engine :: "bool \<Rightarrow> Match list \<Rightarrow> unit Yara_ops" where
  "fixed_engine ok ms = \<lparr>load_rules = (\<lambda>e rf. (ok, e)), scan_file = (\<lambda>e path. (ms, e))\<rparr>"

definition late_engine :: "Match list \<Rightarrow> nat Yara_ops" where
  "late_engine ms = \<lparr>load_rules = (\<lambda>n rf. (0 < n, Suc n)), scan_file = (\<lambda>n path. (ms, n))\<rparr>"

definition upx_match :: Match where
  "upx_match = \<lparr>operator_index = (\<lambda>f. if f = ''description'' then ''UPX'' else []),
                 get_found_strings = {|''UPX1'', ''UPX0''|}\<rparr>"

definition eicar_match :: Match where
  "eicar_match = \<lparr>operator_index = (\<lambda>f. if f = ''signature'' then ''EICAR-Test''
                                        else if f = ''description'' then ''EICAR test file''
                                        else []),
                   get_found_strings = {||}\<rparr>"

definition sample_pe :: PE where
  "sample_pe = \<lparr>get_path = ''sample.exe''\<rparr>"

text \<open>
  Two calls of \<open>ClamavPlugin::analyze\<close> on the same file with the second engine, the
  plugin being new (no call of \<open>load_rules\<close> so far) before the first call; the second
  call runs on the plugin and the error stream the first one left.
\<close>

definition late_first_call :: "Result \<times> nat YaraPlugin \<times> string list" where
  "late_first_call =
     ClamavPlugin_analyze (late_engine [eicar_match]) (ClamavPlugin 0) sample_pe []"

definition late_second_call :: "Result \<times> nat YaraPlugin \<times> string list" where
  "late_second_call =
     ClamavPlugin_analyze (late_engine [eicar_match]) (fst (snd late_first_call)) sample_pe
       (snd (snd late_first_call))"

section \<open>Properties of the loops\<close>

lemma information_add_found:
  "information (add_found ss res) = information res @ map ((#) (CHR 0x09)) ss"
  by (induction ss arbitrary: res) (simp_all add: add_information_def)

lemma level_add_found: "level (add_found ss res) = level res"
  by (induction ss arbitrary: res) (simp_all add: add_information_def)

lemma summary_add_found: "summary (add_found ss res) = summary res"
  by (induction ss arbitrary: res) (simp_all add: add_information_def)

lemma more_add_found: "Result.more (add_found ss res) = Result.more res"
  by (induction ss arbitrary: res) (simp_all add: add_information_def)

lemma information_add_matches:
  "information (add_matches ms f sh res) =
     information res @
     concat (map (\<lambda>m. if sh
                       then (operator_index m f @ '' String(s) found:'') #
                            map ((#) (CHR 0x09)) (sorted_list_of_fset (get_found_strings m))
                       else [operator_index m f]) ms)"
  by (induction ms arbitrary: res) (simp_all add: add_information_def information_add_found)

lemma level_add_matches: "level (add_matches ms f sh res) = level res"
  by (induction ms arbitrary: res) (simp_all add: add_information_def level_add_found)

lemma summary_add_matches: "summary (add_matches ms f sh res) = summary res"
  by (induction ms arbitrary: res) (simp_all add: add_information_def summary_add_found)

lemma more_add_matches: "Result.more (add_matches ms f sh res) = Result.more res"
  by (induction ms arbitrary: res) (simp_all add: add_information_def more_add_found)

lemma add_matches_eq:
  "add_matches ms f sh res =
     res\<lparr>information := information res @
       concat (map (\<lambda>m. if sh
                       then (operator_index m f @ '' String(s) found:'') #
                            map ((#) (CHR 0x09)) (sorted_list_of_fset (get_found_strings m))
                       else [operator_index m f]) ms)\<rparr>"
  by (rule Result.equality)
     (simp_all add: information_add_matches level_add_matches summary_add_matches
        more_add_matches)

text \<open>The order of the iteration over a \<open>std::set\<close> of strings, spelled out.\<close>

lemma string_less_lexord:
  "(a :: string) < b \<longleftrightarrow> (a, b) \<in> lexord {(u, v). of_char u < (of_char v :: nat)}"
  by (simp add: list_less_def less_char_def)

lemma strict_sorted_list_of_fset: "sorted_wrt (<) (sorted_list_of_fset S)"
  by (simp add: sorted_list_of_fset.rep_eq)

section \<open>The two ways through scan\<close>

lemma scan_load_failed:
  assumes "\<not> fst (load_rules ops (engine p) (rule_file p))"
  shows "scan ops p pe summ lvl f sh err =
           (new_Result, p\<lparr>engine := snd (load_rules ops (engine p) (rule_file p))\<rparr>,
            err @ [''Could not load '' @ rule_file p @ ''!''])"
  using assms by (simp add: scan_def YaraPlugin_load_rules_def case_prod_beta)

lemma scan_loaded:
  assumes "fst (load_rules ops (engine p) (rule_file p))"
    and "fst (scan_file ops (snd (load_rules ops (engine p) (rule_file p))) (get_path pe)) = ms"
  shows "fst (scan ops p pe summ lvl f sh err) =
           (if ms = [] then new_Result
            else add_matches ms f sh (set_summary summ (set_level lvl new_Result)))"
  using assms by (simp add: scan_def YaraPlugin_load_rules_def case_prod_beta)

lemma scan_rule_file:
  "rule_file (fst (snd (scan ops p pe summ lvl f sh err))) = rule_file p"
  by (simp add: scan_def YaraPlugin_load_rules_def case_prod_beta)

lemma scan_engine:
  "engine (fst (snd (scan ops p pe summ lvl f sh err))) =
     (if fst (load_rules ops (engine p) (rule_file p))
      then snd (scan_file ops (snd (load_rules ops (engine p) (rule_file p))) (get_path pe))
      else snd (load_rules ops (engine p) (rule_file p)))"
  by (simp add: scan_def YaraPlugin_load_rules_def case_prod_beta)

lemma scan_information:
  assumes "fst (load_rules ops (engine p) (rule_file p))"
    and "fst (scan_file ops (snd (load_rules ops (engine p) (rule_file p))) (get_path pe)) = ms"
  shows "information (fst (scan ops p pe summ lvl f sh err)) =
           concat (map (\<lambda>m. if sh
                       then (operator_index m f @ '' String(s) found:'') #
                            map ((#) (CHR 0x09)) (sorted_list_of_fset (get_found_strings m))
                       else [operator_index m f]) ms)"
  by (simp add: scan_loaded [OF assms] information_add_matches new_Result_def
        set_summary_def set_level_def)

lemma single_match_information:
  "information (add_matches [m] f sh new_Result) =
     (if sh
      then (operator_index m f @ '' String(s) found:'') #
           map ((#) (CHR 0x09)) (sorted_list_of_fset (get_found_strings m))
      else [operator_index m f])"
  by (simp add: information_add_matches new_Result_def del: add_matches.simps)

section \<open>The samples, evaluated\<close>

lemma sorted_list_of_fset_empty: "sorted_list_of_fset {||} = []"
  by (simp add: sorted_list_of_fset.rep_eq)

lemma upx_found_sorted:
  "sorted_list_of_fset (get_found_strings upx_match) = [''UPX0'', ''UPX1'']"
  by code_simp

lemma upx_match_lines:
  "information (add_matches [upx_match] ''description'' True new_Result) =
     [''UPX String(s) found:'', CHR 0x09 # ''UPX0'', CHR 0x09 # ''UPX1'']"
  by (simp add: single_match_information upx_found_sorted del: add_matches.simps)
     (simp add: upx_match_def)

lemma eicar_match_lines:
  "information (add_matches [eicar_match] ''description'' True new_Result) =
     [''EICAR test file String(s) found:'']"
  by (simp add: single_match_information del: add_matches.simps)
     (simp add: eicar_match_def sorted_list_of_fset_empty)

lemma fixed_engine_loads:
  "fst (load_rules (fixed_engine ok ms) e rf) = ok"
  by (simp add: fixed_engine_def)

lemma fixed_engine_scans:
  "fst (scan_file (fixed_engine ok ms) e path) = ms"
  by (simp add: fixed_engine_def)

section \<open>The catalog\<close>


lemma auto_registered_all: "register_all auto_registered [] = Inr auto_registered"
  by (simp add: auto_registered_def register_detector_def lookup_by_id_def
        ClamavPlugin_get_id_def CompilerDetectionPlugin_get_id_def PEiDPlugin_get_id_def
        SuspiciousStringsPlugin_get_id_def)

section \<open>A call that finds matches, and calls in sequence\<close>

lemma analyze_calls_rule_file:
  assumes "\<And>q t e. rule_file (fst (snd (an q t e))) = rule_file q"
  shows "rule_file (fst (analyze_calls an p pes err)) = rule_file p"
proof (induction pes arbitrary: p err)
  case Nil
  show ?case by simp
next
  case (Cons pe pes)
  obtain res p1 err1 where c: "an p pe err = (res, p1, err1)"
    by (cases "an p pe err") auto
  with assms [of p pe err] have "rule_file p1 = rule_file p" by simp
  with Cons.IH [of p1 err1] c show ?case by simp
qed

lemma scan_matched:
  assumes "fst (load_rules ops (engine p) (rule_file p))"
    and "fst (scan_file ops (snd (load_rules ops (engine p) (rule_file p))) (get_path pe)) = ms"
    and "ms \<noteq> []"
  shows "fst (scan ops p pe summ lvl f sh err) =
           \<lparr>level = lvl, summary = Some summ,
            information =
              concat (map (\<lambda>m. if sh
                       then (operator_index m f @ '' String(s) found:'') #
                            map ((#) (CHR 0x09)) (sorted_list_of_fset (get_found_strings m))
                       else [operator_index m f]) ms)\<rparr>"
  using assms(3)
  by (simp add: scan_loaded [OF assms(1,2)] add_matches_eq new_Result_def set_summary_def
        set_level_def del: add_matches.simps)

lemma scan_matched_plain:
  assumes "fst (load_rules ops (engine p) (rule_file p))"
    and "fst (scan_file ops (snd (load_rules ops (engine p) (rule_file p))) (get_path pe)) = ms"
    and "ms \<noteq> []"
  shows "fst (scan ops p pe summ lvl f False err) =
           \<lparr>level = lvl, summary = Some summ, information = map (\<lambda>m. operator_index m f) ms\<rparr>"
proof -
  have "concat (map (\<lambda>m. [operator_index m f]) ms) = map (\<lambda>m. operator_index m f) ms"
    by (induction ms) simp_all
  with scan_matched [OF assms, of summ lvl f False err] show ?thesis by simp
qed

lemma later_call_plain:
  assumes an: "\<And>q t e. an q t e = scan ops q t summ lvl f False e"
  shows "let st = analyze_calls an p pes err;
             ms = fst (scan_file ops (snd (load_rules ops (engine (fst st)) (rule_file p)))
                        (get_path pe))
         in rule_file (fst st) = rule_file p
          \<and> (fst (load_rules ops (engine (fst st)) (rule_file p)) \<and> ms \<noteq> [] \<longrightarrow>
               fst (an (fst st) pe (snd st)) =
                 \<lparr>level = lvl, summary = Some summ,
                  information = map (\<lambda>m. operator_index m f) ms\<rparr>)"
proof -
  have rf: "rule_file (fst (analyze_calls an p pes err)) = rule_file p"
    by (rule analyze_calls_rule_file) (simp add: an scan_rule_file)
  show ?thesis
    unfolding Let_def
  proof (intro conjI impI)
    show "rule_file (fst (analyze_calls an p pes err)) = rule_file p" by (rule rf)
  next
    let ?p1 = "fst (analyze_calls an p pes err)"
    assume h: "fst (load_rules ops (engine ?p1) (rule_file p)) \<and>
      fst (scan_file ops (snd (load_rules ops (engine ?p1) (rule_file p))) (get_path pe)) \<noteq> []"
    from h rf have l: "fst (load_rules ops (engine ?p1) (rule_file ?p1))" by simp
    from h rf have n: "fst (scan_file ops (snd (load_rules ops (engine ?p1) (rule_file ?p1)))
        (get_path pe)) \<noteq> []" by simp
    from scan_matched_plain [OF l refl n, of summ lvl f "snd (analyze_calls an p pes err)"] rf
    show "fst (an ?p1 pe (snd (analyze_calls an p pes err))) =
       \<lparr>level = lvl, summary = Some summ,
        information = map (\<lambda>m. operator_index m f)
          (fst (scan_file ops (snd (load_rules ops (engine ?p1) (rule_file p))) (get_path pe)))\<rparr>"
      by (simp add: an)
  qed
qed

lemma later_call_strings:
  assumes an: "\<And>q t e. an q t e = scan ops q t summ lvl f True e"
  shows "let st = analyze_calls an p pes err;
             ms = fst (scan_file ops (snd (load_rules ops (engine (fst st)) (rule_file p)))
                        (get_path pe))
         in rule_file (fst st) = rule_file p
          \<and> (fst (load_rules ops (engine (fst st)) (rule_file p)) \<and> ms \<noteq> [] \<longrightarrow>
               fst (an (fst st) pe (snd st)) =
                 \<lparr>level = lvl, summary = Some summ,
                  information =
                    concat (map (\<lambda>m. (operator_index m f @ '' String(s) found:'') #
                      map (\<lambda>s. CHR 0x09 # s) (sorted_list_of_fset (get_found_strings m))) ms)\<rparr>)"
proof -
  have rf: "rule_file (fst (analyze_calls an p pes err)) = rule_file p"
    by (rule analyze_calls_rule_file) (simp add: an scan_rule_file)
  show ?thesis
    unfolding Let_def
  proof (intro conjI impI)
    show "rule_file (fst (analyze_calls an p pes err)) = rule_file p" by (rule rf)
  next
    let ?p1 = "fst (analyze_calls an p pes err)"
    assume h: "fst (load_rules ops (engine ?p1) (rule_file p)) \<and>
      fst (scan_file ops (snd (load_rules ops (engine ?p1) (rule_file p))) (get_path pe)) \<noteq> []"
    from h rf have l: "fst (load_rules ops (engine ?p1) (rule_file ?p1))" by simp
    from h rf have n: "fst (scan_file ops (snd (load_rules ops (engine ?p1) (rule_file ?p1)))
        (get_path pe)) \<noteq> []" by simp
    from scan_matched [OF l refl n, of summ lvl f True "snd (analyze_calls an p pes err)"] rf
    show "fst (an ?p1 pe (snd (analyze_calls an p pes err))) =
       \<lparr>level = lvl, summary = Some summ,
        information =
          concat (map (\<lambda>m. (operator_index m f @ '' String(s) found:'') #
                      map (\<lambda>s. CHR 0x09 # s) (sorted_list_of_fset (get_found_strings m)))
          (fst (scan_file ops (snd (load_rules ops (engine ?p1) (rule_file p))) (get_path pe))))\<rparr>"
      by (simp add: an)
  qed
qed

lemma late_two_calls:
  "analyze_calls (ClamavPlugin_analyze (late_engine [eicar_match])) (ClamavPlugin 0)
     [sample_pe, sample_pe] [] =
   (ClamavPlugin 2, [''Could not load yara_rules/clamav.yara!''])"
  by (simp add: ClamavPlugin_analyze_def scan_def YaraPlugin_load_rules_def late_engine_def
        ClamavPlugin_def YaraPlugin_def)

section \<open>The claims\<close>

subsection \<open>Failure to load the rules\<close>

text \<open>
  C1. For every detector and every target: when loading the rule set fails, \<open>analyze\<close>
  returns the empty result (level none, no summary, no information). The model of
  \<open>scan\<close> has no error value, as the source has no \<open>throw\<close>: it returns a result on
  every path. The four plugins' \<open>analyze\<close> are \<open>scan\<close> with fixed arguments.
\<close>

theorem scan_load_failure_empty:
  assumes "\<not> fst (load_rules ops (engine p) (rule_file p))"
  shows "fst (scan ops p pe summ lvl f sh err) =
           \<lparr>level = NO_OPINION, summary = None, information = []\<rparr>
         \<and> fst (ClamavPlugin_analyze ops p pe err) = new_Result
         \<and> fst (CompilerDetectionPlugin_analyze ops p pe err) = new_Result
         \<and> fst (PEiDPlugin_analyze ops p pe err) = new_Result
         \<and> fst (SuspiciousStringsPlugin_analyze ops p pe err) = new_Result"
  by (simp add: scan_load_failed [OF assms] new_Result_def ClamavPlugin_analyze_def
        CompilerDetectionPlugin_analyze_def PEiDPlugin_analyze_def
        SuspiciousStringsPlugin_analyze_def)

theorem scan_load_failure_empty_witness:
  "\<not> fst (load_rules (fixed_engine False [upx_match]) (engine (SuspiciousStringsPlugin ()))
            (rule_file (SuspiciousStringsPlugin ())))
   \<and> fst (SuspiciousStringsPlugin_analyze (fixed_engine False [upx_match])
            (SuspiciousStringsPlugin ()) sample_pe []) =
       \<lparr>level = NO_OPINION, summary = None, information = []\<rparr>"
proof -
  have h: "\<not> fst (load_rules (fixed_engine False [upx_match])
                 (engine (SuspiciousStringsPlugin ())) (rule_file (SuspiciousStringsPlugin ())))"
    by (simp add: fixed_engine_loads)
  from scan_load_failure_empty [OF h, of sample_pe _ _ _ _ "[]"] h show ?thesis
    by (simp add: new_Result_def)
qed

subsection \<open>No match\<close>

text \<open>
  C2. For every detector and every target for which the engine returns no match,
  \<open>analyze\<close> returns a result with the default level, no summary and no information.
\<close>

theorem scan_no_match_empty:
  assumes "fst (load_rules ops (engine p) (rule_file p))"
    and "fst (scan_file ops (snd (load_rules ops (engine p) (rule_file p))) (get_path pe)) = []"
  shows "fst (scan ops p pe summ lvl f sh err) =
           \<lparr>level = NO_OPINION, summary = None, information = []\<rparr>"
  by (simp add: scan_loaded [OF assms] new_Result_def)

theorem scan_no_match_empty_witness:
  "fst (load_rules (fixed_engine True []) (engine (PEiDPlugin ())) (rule_file (PEiDPlugin ())))
   \<and> fst (scan_file (fixed_engine True [])
        (snd (load_rules (fixed_engine True []) (engine (PEiDPlugin ()))
               (rule_file (PEiDPlugin ()))))
        (get_path sample_pe)) = []
   \<and> fst (scan (fixed_engine True []) (PEiDPlugin ()) sample_pe ''PEiD Signature:'' SUSPICIOUS
        ''packer_name'' False []) = \<lparr>level = NO_OPINION, summary = None, information = []\<rparr>"
proof -
  have h1: "fst (load_rules (fixed_engine True []) (engine (PEiDPlugin ()))
                  (rule_file (PEiDPlugin ())))"
    by (simp add: fixed_engine_loads)
  have h2: "fst (scan_file (fixed_engine True [])
        (snd (load_rules (fixed_engine True []) (engine (PEiDPlugin ()))
               (rule_file (PEiDPlugin ()))))
        (get_path sample_pe)) = []"
    by (simp add: fixed_engine_scans)
  from scan_no_match_empty [OF h1 h2] h1 h2 show ?thesis by blast
qed

subsection \<open>The lines of a match when the strings are shown\<close>

text \<open>
  C3. With \<open>show_strings = true\<close>, the information of the result is made of one group
  of lines per match: first the marker line, the value of the configured meta field
  followed by \<open>" String(s) found:"\<close>, then one line per matched string of that match, a tab
  followed by the string. The strings of a group are exactly the elements of the match's
  set, each once, in strictly increasing lexicographic order of their bytes.
\<close>

theorem scan_show_strings_lines:
  assumes "fst (load_rules ops (engine p) (rule_file p))"
    and "fst (scan_file ops (snd (load_rules ops (engine p) (rule_file p))) (get_path pe)) = ms"
  shows "\<exists>groups.
           information (fst (scan ops p pe summ lvl f True err)) = concat groups
         \<and> length groups = length ms
         \<and> (\<forall>i<length ms. \<exists>subs.
               groups ! i = (operator_index (ms ! i) f @ '' String(s) found:'') #
                            map (\<lambda>s. CHR 0x09 # s) subs
             \<and> sorted_wrt (\<lambda>a b. (a, b) \<in> lexord {(u, v). of_char u < (of_char v :: nat)}) subs
             \<and> set subs = fset (get_found_strings (ms ! i)))"
proof -
  let ?g = "\<lambda>m. (operator_index m f @ '' String(s) found:'') #
                 map ((#) (CHR 0x09)) (sorted_list_of_fset (get_found_strings m))"
  have info: "information (fst (scan ops p pe summ lvl f True err)) = concat (map ?g ms)"
    using scan_information [OF assms, of summ lvl f True err] by simp
  have ord: "sorted_wrt (\<lambda>a b. (a, b) \<in> lexord {(u, v). of_char u < (of_char v :: nat)})
               (sorted_list_of_fset S)" for S :: "string fset"
    using strict_sorted_list_of_fset [of S] by (simp add: string_less_lexord [abs_def])
  have "\<forall>i<length ms. \<exists>subs.
          map ?g ms ! i = (operator_index (ms ! i) f @ '' String(s) found:'') #
                          map (\<lambda>s. CHR 0x09 # s) subs
        \<and> sorted_wrt (\<lambda>a b. (a, b) \<in> lexord {(u, v). of_char u < (of_char v :: nat)}) subs
        \<and> set subs = fset (get_found_strings (ms ! i))"
  proof (intro allI impI)
    fix i assume "i < length ms"
    then show "\<exists>subs.
          map ?g ms ! i = (operator_index (ms ! i) f @ '' String(s) found:'') #
                          map (\<lambda>s. CHR 0x09 # s) subs
        \<and> sorted_wrt (\<lambda>a b. (a, b) \<in> lexord {(u, v). of_char u < (of_char v :: nat)}) subs
        \<and> set subs = fset (get_found_strings (ms ! i))"
      using ord [of "get_found_strings (ms ! i)"]
      by (intro exI [of _ "sorted_list_of_fset (get_found_strings (ms ! i))"]) simp
  qed
  with info show ?thesis
    by (intro exI [of _ "map ?g ms"]) simp
qed

text \<open>
  The example of the specification: one match with description \<open>UPX\<close> and the strings
  \<open>UPX1\<close> and \<open>UPX0\<close>. The theorem leaves one list of lines only.
\<close>

theorem scan_show_strings_lines_witness:
  "fst (load_rules (fixed_engine True [upx_match]) (engine (SuspiciousStringsPlugin ()))
          (rule_file (SuspiciousStringsPlugin ())))
   \<and> fst (scan_file (fixed_engine True [upx_match])
        (snd (load_rules (fixed_engine True [upx_match]) (engine (SuspiciousStringsPlugin ()))
          (rule_file (SuspiciousStringsPlugin ()))))
        (get_path sample_pe)) = [upx_match]
   \<and> information (fst (scan (fixed_engine True [upx_match]) (SuspiciousStringsPlugin ())
        sample_pe ''Strings found in the binary may indicate undesirable behavior:''
        SUSPICIOUS ''description'' True [])) =
       [''UPX String(s) found:'', CHR 0x09 # ''UPX0'', CHR 0x09 # ''UPX1'']"
proof -
  let ?E = "fixed_engine True [upx_match]"
  let ?P = "SuspiciousStringsPlugin ()"
  have h1: "fst (load_rules ?E (engine ?P) (rule_file ?P))"
    by (simp add: fixed_engine_loads)
  have h2: "fst (scan_file ?E (snd (load_rules ?E (engine ?P) (rule_file ?P)))
              (get_path sample_pe)) = [upx_match]"
    by (simp add: fixed_engine_scans)
  from scan_show_strings_lines [OF h1 h2,
      of "''Strings found in the binary may indicate undesirable behavior:''" SUSPICIOUS
         "''description''" "[]"]
  obtain groups subs where
    info: "information (fst (scan ?E ?P sample_pe
             ''Strings found in the binary may indicate undesirable behavior:''
             SUSPICIOUS ''description'' True [])) = concat groups"
    and len: "length groups = 1"
    and grp: "groups ! 0 = (operator_index upx_match ''description'' @ '' String(s) found:'') #
                map (\<lambda>s. CHR 0x09 # s) subs"
    and srt: "sorted_wrt (\<lambda>a b. (a, b) \<in> lexord {(u, v). of_char u < (of_char v :: nat)}) subs"
    and st: "set subs = fset (get_found_strings upx_match)"
    by auto
  from srt have "sorted_wrt (<) subs"
    by (simp add: string_less_lexord [abs_def])
  moreover have "sorted_wrt (<) (sorted_list_of_fset (get_found_strings upx_match))"
    by (rule strict_sorted_list_of_fset)
  ultimately have "subs = sorted_list_of_fset (get_found_strings upx_match)"
    using st by (intro strict_sorted_equal) simp_all
  then have subs: "subs = [''UPX0'', ''UPX1'']"
    by (simp only: upx_found_sorted)
  from len obtain g where g: "groups = [g]"
    by (cases groups) simp_all
  with grp subs info have
    "information (fst (scan ?E ?P sample_pe
             ''Strings found in the binary may indicate undesirable behavior:''
             SUSPICIOUS ''description'' True [])) =
       [''UPX String(s) found:'', CHR 0x09 # ''UPX0'', CHR 0x09 # ''UPX1'']"
    by (simp add: upx_match_def)
  with h1 h2 show ?thesis by blast
qed

subsection \<open>Several matches\<close>

text \<open>
  C4. The information of the result is the concatenation, in the order in which the
  engine returned the matches, of one entry or group of entries per match: the value of
  the meta field alone when the strings are not shown, the marker line followed by the
  lines of the strings when they are. Every match has its own lines, and no line is merged
  with or dropped because of a line of another match.
\<close>

theorem scan_records_in_order:
  assumes "fst (load_rules ops (engine p) (rule_file p))"
    and "fst (scan_file ops (snd (load_rules ops (engine p) (rule_file p))) (get_path pe)) = ms"
  shows "information (fst (scan ops p pe summ lvl f sh err)) =
           concat (map (\<lambda>m. if sh
                       then (operator_index m f @ '' String(s) found:'') #
                            map (\<lambda>s. CHR 0x09 # s) (sorted_list_of_fset (get_found_strings m))
                       else [operator_index m f]) ms)"
  by (rule scan_information [OF assms])

theorem scan_records_in_order_witness:
  "fst (load_rules (fixed_engine True [upx_match, eicar_match, upx_match])
          (engine (CompilerDetectionPlugin ())) (rule_file (CompilerDetectionPlugin ())))
   \<and> fst (scan_file (fixed_engine True [upx_match, eicar_match, upx_match])
        (snd (load_rules (fixed_engine True [upx_match, eicar_match, upx_match])
               (engine (CompilerDetectionPlugin ())) (rule_file (CompilerDetectionPlugin ()))))
        (get_path sample_pe)) = [upx_match, eicar_match, upx_match]
   \<and> information (fst (scan (fixed_engine True [upx_match, eicar_match, upx_match])
        (CompilerDetectionPlugin ()) sample_pe ''Matching compiler(s):'' NO_OPINION
        ''description'' False [])) = [''UPX'', ''EICAR test file'', ''UPX'']
   \<and> information (fst (scan (fixed_engine True [upx_match, eicar_match, upx_match])
        (CompilerDetectionPlugin ()) sample_pe ''Matching compiler(s):'' NO_OPINION
        ''description'' True [])) =
       [''UPX String(s) found:'', CHR 0x09 # ''UPX0'', CHR 0x09 # ''UPX1'',
        ''EICAR test file String(s) found:'',
        ''UPX String(s) found:'', CHR 0x09 # ''UPX0'', CHR 0x09 # ''UPX1'']"
proof -
  let ?E = "fixed_engine True [upx_match, eicar_match, upx_match]"
  let ?P = "CompilerDetectionPlugin ()"
  have h1: "fst (load_rules ?E (engine ?P) (rule_file ?P))"
    by (simp add: fixed_engine_loads)
  have h2: "fst (scan_file ?E (snd (load_rules ?E (engine ?P) (rule_file ?P)))
              (get_path sample_pe)) = [upx_match, eicar_match, upx_match]"
    by (simp add: fixed_engine_scans)
  have e: "sorted_list_of_fset (get_found_strings eicar_match) = []"
    by (simp add: eicar_match_def sorted_list_of_fset_empty)
  have plain: "information (fst (scan ?E ?P sample_pe ''Matching compiler(s):'' NO_OPINION
        ''description'' False [])) = [''UPX'', ''EICAR test file'', ''UPX'']"
    using scan_records_in_order [OF h1 h2, of "''Matching compiler(s):''" NO_OPINION
      "''description''" False "[]"]
    by (simp add: upx_match_def eicar_match_def)
  have strs: "information (fst (scan ?E ?P sample_pe ''Matching compiler(s):'' NO_OPINION
        ''description'' True [])) =
       [''UPX String(s) found:'', CHR 0x09 # ''UPX0'', CHR 0x09 # ''UPX1'',
        ''EICAR test file String(s) found:'',
        ''UPX String(s) found:'', CHR 0x09 # ''UPX0'', CHR 0x09 # ''UPX1'']"
    using scan_records_in_order [OF h1 h2, of "''Matching compiler(s):''" NO_OPINION
      "''description''" True "[]"]
    by (simp add: upx_found_sorted e) (simp add: upx_match_def eicar_match_def)
  from h1 h2 plain strs show ?thesis by blast
qed

subsection \<open>The ClamAV plugin on one match\<close>

text \<open>
  C5. For the ClamAV plugin (which does not show the strings), when the engine returns
  exactly one match whose meta field \<open>signature\<close> is \<open>EICAR-Test\<close>, \<open>analyze\<close> returns
  the result with information \<open>["EICAR-Test"]\<close>, level \<open>MALICIOUS\<close> and the plugin's
  summary.
\<close>

theorem clamav_single_match:
  assumes "fst (load_rules ops (engine p) (rule_file p))"
    and "fst (scan_file ops (snd (load_rules ops (engine p) (rule_file p))) (get_path pe)) = [m]"
    and "operator_index m ''signature'' = ''EICAR-Test''"
  shows "fst (ClamavPlugin_analyze ops p pe err) =
           \<lparr>level = MALICIOUS, summary = Some ''Matching ClamAV signature(s):'',
            information = [''EICAR-Test'']\<rparr>"
  using assms(3)
  by (simp add: ClamavPlugin_analyze_def scan_loaded [OF assms(1,2)] new_Result_def
        set_level_def set_summary_def add_information_def)

theorem clamav_single_match_witness:
  "fst (load_rules (fixed_engine True [eicar_match]) (engine (ClamavPlugin ()))
          (rule_file (ClamavPlugin ())))
   \<and> fst (scan_file (fixed_engine True [eicar_match])
        (snd (load_rules (fixed_engine True [eicar_match]) (engine (ClamavPlugin ()))
               (rule_file (ClamavPlugin ()))))
        (get_path sample_pe)) = [eicar_match]
   \<and> operator_index eicar_match ''signature'' = ''EICAR-Test''
   \<and> fst (ClamavPlugin_analyze (fixed_engine True [eicar_match]) (ClamavPlugin ()) sample_pe []) =
       \<lparr>level = MALICIOUS, summary = Some ''Matching ClamAV signature(s):'',
        information = [''EICAR-Test'']\<rparr>"
proof -
  let ?E = "fixed_engine True [eicar_match]"
  have h1: "fst (load_rules ?E (engine (ClamavPlugin ())) (rule_file (ClamavPlugin ())))"
    by (simp add: fixed_engine_loads)
  have h2: "fst (scan_file ?E (snd (load_rules ?E (engine (ClamavPlugin ()))
              (rule_file (ClamavPlugin ())))) (get_path sample_pe)) = [eicar_match]"
    by (simp add: fixed_engine_scans)
  have h3: "operator_index eicar_match ''signature'' = ''EICAR-Test''"
    by (simp add: eicar_match_def)
  from clamav_single_match [OF h1 h2 h3, of "[]"] h1 h2 h3 show ?thesis by blast
qed

subsection \<open>After a failed load\<close>

text \<open>
  C6, as stated: once an attempt to load the rules has failed, no later call of
  \<open>analyze\<close> attempts to load them again. The source calls \<open>_load_rules\<close>, and with it
  the engine's \<open>load_rules\<close>, at the start of every \<open>scan\<close>, and keeps no record of a
  failure. With the engine whose first load fails and whose later ones succeed: the first
  call writes the diagnostic and returns the empty result after one attempt; the second
  call makes a second attempt and reports the match.
\<close>

theorem load_failure_not_terminal_counterexample:
  "fst late_first_call = \<lparr>level = NO_OPINION, summary = None, information = []\<rparr>
   \<and> snd (snd late_first_call) = [''Could not load yara_rules/clamav.yara!'']
   \<and> engine (fst (snd late_first_call)) = 1
   \<and> engine (fst (snd late_second_call)) = 2
   \<and> fst late_second_call =
       \<lparr>level = MALICIOUS, summary = Some ''Matching ClamAV signature(s):'',
        information = [''EICAR-Test'']\<rparr>"
  by (simp add: late_second_call_def late_first_call_def ClamavPlugin_analyze_def scan_def
        YaraPlugin_load_rules_def late_engine_def ClamavPlugin_def YaraPlugin_def
        new_Result_def set_level_def set_summary_def add_information_def eicar_match_def)

text \<open>
  C6, amended: a failed load is not remembered. After a call whose load failed, the
  plugin holds the same rule file and the engine as the failed attempt left it, and the
  next call asks the engine again to load that rule file: it returns the empty result if
  this attempt fails, and otherwise scans the target and reports its matches.
\<close>

theorem scan_retries_load:
  assumes "\<not> fst (load_rules ops (engine p) (rule_file p))"
    and "scan ops p pe summ lvl f sh err = (r, p1, err1)"
  shows "engine p1 = snd (load_rules ops (engine p) (rule_file p))
       \<and> rule_file p1 = rule_file p
       \<and> engine (fst (snd (scan ops p1 pe' summ lvl f sh err1))) =
           (if fst (load_rules ops (engine p1) (rule_file p))
            then snd (scan_file ops (snd (load_rules ops (engine p1) (rule_file p))) (get_path pe'))
            else snd (load_rules ops (engine p1) (rule_file p)))
       \<and> fst (scan ops p1 pe' summ lvl f sh err1) =
           (if fst (load_rules ops (engine p1) (rule_file p))
            then let m = fst (scan_file ops (snd (load_rules ops (engine p1) (rule_file p)))
                                (get_path pe'))
                 in if m = [] then new_Result
                    else add_matches m f sh (set_summary summ (set_level lvl new_Result))
            else new_Result)"
proof -
  from assms have p1: "p1 = p\<lparr>engine := snd (load_rules ops (engine p) (rule_file p))\<rparr>"
    by (simp add: scan_load_failed)
  then have rf: "rule_file p1 = rule_file p"
    and en: "engine p1 = snd (load_rules ops (engine p) (rule_file p))"
    by simp_all
  have res: "fst (scan ops p1 pe' summ lvl f sh err1) =
           (if fst (load_rules ops (engine p1) (rule_file p1))
            then let m = fst (scan_file ops (snd (load_rules ops (engine p1) (rule_file p1)))
                                (get_path pe'))
                 in if m = [] then new_Result
                    else add_matches m f sh (set_summary summ (set_level lvl new_Result))
            else new_Result)"
    by (simp add: scan_loaded scan_load_failed Let_def)
  show ?thesis
    using en rf res scan_engine [of ops p1 pe' summ lvl f sh err1] by simp
qed

theorem scan_retries_load_witness:
  "\<not> fst (load_rules (late_engine [eicar_match]) (engine (PEiDPlugin 0)) (rule_file (PEiDPlugin 0)))
   \<and> scan (late_engine [eicar_match]) (PEiDPlugin 0) sample_pe ''PEiD Signature:'' SUSPICIOUS
        ''signature'' False [] =
       (new_Result, PEiDPlugin 1, [''Could not load yara_rules/peid.yara!''])
   \<and> engine (fst (snd (scan (late_engine [eicar_match]) (PEiDPlugin 1) sample_pe
        ''PEiD Signature:'' SUSPICIOUS ''signature'' False
        [''Could not load yara_rules/peid.yara!'']))) = 2
   \<and> fst (scan (late_engine [eicar_match]) (PEiDPlugin 1) sample_pe
        ''PEiD Signature:'' SUSPICIOUS ''signature'' False
        [''Could not load yara_rules/peid.yara!'']) =
       \<lparr>level = SUSPICIOUS, summary = Some ''PEiD Signature:'', information = [''EICAR-Test'']\<rparr>"
proof -
  let ?E = "late_engine [eicar_match]"
  have h1: "\<not> fst (load_rules ?E (engine (PEiDPlugin 0)) (rule_file (PEiDPlugin 0)))"
    by (simp add: late_engine_def PEiDPlugin_def YaraPlugin_def)
  have h2: "scan ?E (PEiDPlugin 0) sample_pe ''PEiD Signature:'' SUSPICIOUS
        ''signature'' False [] =
       (new_Result, PEiDPlugin 1, [''Could not load yara_rules/peid.yara!''])"
    by (simp add: scan_load_failed [OF h1])
       (simp add: late_engine_def PEiDPlugin_def YaraPlugin_def)
  from scan_retries_load [OF h1 h2, of sample_pe] h1 h2 show ?thesis
    by (simp add: late_engine_def PEiDPlugin_def YaraPlugin_def new_Result_def
          set_level_def set_summary_def add_information_def eicar_match_def)
qed

subsection \<open>Calling twice\<close>

text \<open>
  C7. Two calls of \<open>analyze\<close> on the same target, the second on the plugin the first one
  left: when the engine answers the second call as it answered the first (the same
  outcome of loading the rules and, where they loaded, the same matches), the two results
  are equal in level, summary and information.
\<close>

theorem analyze_twice_identical:
  assumes "scan ops p pe summ lvl f sh err = (r, p1, err1)"
    and "fst (load_rules ops (engine p1) (rule_file p1)) =
         fst (load_rules ops (engine p) (rule_file p))"
    and "fst (load_rules ops (engine p) (rule_file p)) \<longrightarrow>
         fst (scan_file ops (snd (load_rules ops (engine p1) (rule_file p1))) (get_path pe)) =
         fst (scan_file ops (snd (load_rules ops (engine p) (rule_file p))) (get_path pe))"
  shows "fst (scan ops p1 pe summ lvl f sh err1) = r"
proof (cases "fst (load_rules ops (engine p) (rule_file p))")
  case True
  with assms(2) have l1: "fst (load_rules ops (engine p1) (rule_file p1))" by simp
  have "fst (scan ops p1 pe summ lvl f sh err1) = fst (scan ops p pe summ lvl f sh err)"
    using assms(3) True by (simp add: scan_loaded [OF l1 refl] scan_loaded [OF True refl])
  with assms(1) show ?thesis by simp
next
  case False
  with assms(2) have l1: "\<not> fst (load_rules ops (engine p1) (rule_file p1))" by simp
  have "fst (scan ops p1 pe summ lvl f sh err1) = fst (scan ops p pe summ lvl f sh err)"
    by (simp add: scan_load_failed [OF l1] scan_load_failed [OF False])
  with assms(1) show ?thesis by simp
qed

text \<open>
  With the counting engine after its first load, the state of the engine differs between
  the two calls and its answers do not.
\<close>

theorem analyze_twice_identical_witness:
  "scan (late_engine [eicar_match]) (ClamavPlugin 1) sample_pe ''Matching ClamAV signature(s):''
     MALICIOUS ''signature'' False [] =
     (\<lparr>level = MALICIOUS, summary = Some ''Matching ClamAV signature(s):'',
       information = [''EICAR-Test'']\<rparr>, ClamavPlugin 2, [])
   \<and> fst (load_rules (late_engine [eicar_match]) (engine (ClamavPlugin 2))
        (rule_file (ClamavPlugin 2))) =
     fst (load_rules (late_engine [eicar_match]) (engine (ClamavPlugin 1))
        (rule_file (ClamavPlugin 1)))
   \<and> fst (scan (late_engine [eicar_match]) (ClamavPlugin 2) sample_pe
        ''Matching ClamAV signature(s):'' MALICIOUS ''signature'' False []) =
     \<lparr>level = MALICIOUS, summary = Some ''Matching ClamAV signature(s):'',
      information = [''EICAR-Test'']\<rparr>"
proof -
  let ?E = "late_engine [eicar_match]"
  have h1: "scan ?E (ClamavPlugin 1) sample_pe ''Matching ClamAV signature(s):''
     MALICIOUS ''signature'' False [] =
     (\<lparr>level = MALICIOUS, summary = Some ''Matching ClamAV signature(s):'',
       information = [''EICAR-Test'']\<rparr>, ClamavPlugin 2, [])"
    by (simp add: scan_def YaraPlugin_load_rules_def late_engine_def ClamavPlugin_def
          YaraPlugin_def new_Result_def set_level_def set_summary_def add_information_def
          eicar_match_def)
  have h2: "fst (load_rules ?E (engine (ClamavPlugin 2)) (rule_file (ClamavPlugin 2))) =
     fst (load_rules ?E (engine (ClamavPlugin 1)) (rule_file (ClamavPlugin 1)))"
    by (simp add: late_engine_def ClamavPlugin_def YaraPlugin_def)
  have h3: "fst (load_rules ?E (engine (ClamavPlugin 1)) (rule_file (ClamavPlugin 1))) \<longrightarrow>
     fst (scan_file ?E (snd (load_rules ?E (engine (ClamavPlugin 2))
            (rule_file (ClamavPlugin 2)))) (get_path sample_pe)) =
     fst (scan_file ?E (snd (load_rules ?E (engine (ClamavPlugin 1))
            (rule_file (ClamavPlugin 1)))) (get_path sample_pe))"
    by (simp add: late_engine_def)
  from analyze_twice_identical [OF h1 h2 h3] h1 h2 show ?thesis by blast
qed

subsection \<open>Registering a detector twice\<close>



subsection \<open>A match without strings\<close>

text \<open>
  C9. With \<open>show_strings = true\<close>, a match whose set of matched strings is empty still
  contributes its marker line, and nothing else: the information of the result is the
  lines of the matches before it, then the marker line alone, then the lines of the
  matches after it.
\<close>

theorem empty_found_marker_only:
  assumes "fst (load_rules ops (engine p) (rule_file p))"
    and "fst (scan_file ops (snd (load_rules ops (engine p) (rule_file p))) (get_path pe)) = ms"
    and "i < length ms"
    and "get_found_strings (ms ! i) = {||}"
  shows "information (fst (scan ops p pe summ lvl f True err)) =
           concat (map (\<lambda>m. information (add_matches [m] f True new_Result)) (take i ms))
           @ [operator_index (ms ! i) f @ '' String(s) found:'']
           @ concat (map (\<lambda>m. information (add_matches [m] f True new_Result)) (drop (Suc i) ms))"
proof -
  let ?g = "\<lambda>m. information (add_matches [m] f True new_Result)"
  have "information (fst (scan ops p pe summ lvl f True err)) = concat (map ?g ms)"
    by (simp only: scan_information [OF assms(1,2)] single_match_information)
  also have "concat (map ?g ms) =
      concat (map ?g (take i ms)) @ ?g (ms ! i) @ concat (map ?g (drop (Suc i) ms))"
  proof -
    have "ms = take i ms @ ms ! i # drop (Suc i) ms"
      using assms(3) by (rule id_take_nth_drop)
    from arg_cong [OF this, of "\<lambda>xs. concat (map ?g xs)"] show ?thesis
      by (simp only: map_append list.map concat_append concat.simps)
  qed
  also have "?g (ms ! i) = [operator_index (ms ! i) f @ '' String(s) found:'']"
    using assms(4)
    by (simp add: single_match_information sorted_list_of_fset_empty del: add_matches.simps)
  finally show ?thesis .
qed

theorem empty_found_marker_only_witness:
  "fst (load_rules (fixed_engine True [upx_match, eicar_match]) (engine (SuspiciousStringsPlugin ()))
          (rule_file (SuspiciousStringsPlugin ())))
   \<and> fst (scan_file (fixed_engine True [upx_match, eicar_match])
        (snd (load_rules (fixed_engine True [upx_match, eicar_match])
               (engine (SuspiciousStringsPlugin ())) (rule_file (SuspiciousStringsPlugin ()))))
        (get_path sample_pe)) = [upx_match, eicar_match]
   \<and> 1 < length [upx_match, eicar_match]
   \<and> get_found_strings ([upx_match, eicar_match] ! 1) = {||}
   \<and> information (fst (scan (fixed_engine True [upx_match, eicar_match])
        (SuspiciousStringsPlugin ()) sample_pe
        ''Strings found in the binary may indicate undesirable behavior:''
        SUSPICIOUS ''description'' True [])) =
       [''UPX String(s) found:'', CHR 0x09 # ''UPX0'', CHR 0x09 # ''UPX1'',
        ''EICAR test file String(s) found:'']"
proof -
  let ?E = "fixed_engine True [upx_match, eicar_match]"
  let ?P = "SuspiciousStringsPlugin ()"
  have h1: "fst (load_rules ?E (engine ?P) (rule_file ?P))"
    by (simp add: fixed_engine_loads)
  have h2: "fst (scan_file ?E (snd (load_rules ?E (engine ?P) (rule_file ?P)))
              (get_path sample_pe)) = [upx_match, eicar_match]"
    by (simp add: fixed_engine_scans)
  have h3: "1 < length [upx_match, eicar_match]" by simp
  have h4: "get_found_strings ([upx_match, eicar_match] ! 1) = {||}"
    by (simp add: eicar_match_def)
  from empty_found_marker_only [OF h1 h2 h3 h4,
      of "''Strings found in the binary may indicate undesirable behavior:''" SUSPICIOUS
         "''description''" "[]"] h1 h2 h3 h4
  show ?thesis
    by (simp add: upx_match_lines eicar_match_def del: add_matches.simps)
qed

subsection \<open>The configuration is only read\<close>

text \<open>
  C10. A call of \<open>scan\<close> leaves the rule file of the plugin as the constructor set it.
  For each of the four plugins, after any sequence of earlier calls of its \<open>analyze\<close>
  the rule file is still the same, and the next call uses the same summary, level, name of
  meta field and flag as every call before it: when the rules load and the engine returns
  matches, the result carries exactly that summary and level, and its information is
  built from that meta field, with or without the strings as the flag says.
\<close>

theorem scan_keeps_configuration:
  "rule_file (fst (snd (scan ops p pe summ lvl f sh err))) = rule_file p
   \<and> (let st = analyze_calls (ClamavPlugin_analyze ops) p pes err;
        ms = fst (scan_file ops (snd (load_rules ops (engine (fst st)) (rule_file p)))
                   (get_path pe))
    in rule_file (fst st) = rule_file p
     \<and> (fst (load_rules ops (engine (fst st)) (rule_file p)) \<and> ms \<noteq> [] \<longrightarrow>
          fst (ClamavPlugin_analyze ops (fst st) pe (snd st)) =
            \<lparr>level = MALICIOUS, summary = Some ''Matching ClamAV signature(s):'',
             information = map (\<lambda>m. operator_index m ''signature'') ms\<rparr>))
   \<and> (let st = analyze_calls (CompilerDetectionPlugin_analyze ops) p pes err;
        ms = fst (scan_file ops (snd (load_rules ops (engine (fst st)) (rule_file p)))
                   (get_path pe))
    in rule_file (fst st) = rule_file p
     \<and> (fst (load_rules ops (engine (fst st)) (rule_file p)) \<and> ms \<noteq> [] \<longrightarrow>
          fst (CompilerDetectionPlugin_analyze ops (fst st) pe (snd st)) =
            \<lparr>level = NO_OPINION, summary = Some ''Matching compiler(s):'',
             information = map (\<lambda>m. operator_index m ''description'') ms\<rparr>))
   \<and> (let st = analyze_calls (PEiDPlugin_analyze ops) p pes err;
        ms = fst (scan_file ops (snd (load_rules ops (engine (fst st)) (rule_file p)))
                   (get_path pe))
    in rule_file (fst st) = rule_file p
     \<and> (fst (load_rules ops (engine (fst st)) (rule_file p)) \<and> ms \<noteq> [] \<longrightarrow>
          fst (PEiDPlugin_analyze ops (fst st) pe (snd st)) =
            \<lparr>level = SUSPICIOUS, summary = Some ''PEiD Signature:'',
             information = map (\<lambda>m. operator_index m ''packer_name'') ms\<rparr>))
   \<and> (let st = analyze_calls (SuspiciousStringsPlugin_analyze ops) p pes err;
        ms = fst (scan_file ops (snd (load_rules ops (engine (fst st)) (rule_file p)))
                   (get_path pe))
    in rule_file (fst st) = rule_file p
     \<and> (fst (load_rules ops (engine (fst st)) (rule_file p)) \<and> ms \<noteq> [] \<longrightarrow>
          fst (SuspiciousStringsPlugin_analyze ops (fst st) pe (snd st)) =
            \<lparr>level = SUSPICIOUS,
             summary = Some ''Strings found in the binary may indicate undesirable behavior:'',
             information =
               concat (map (\<lambda>m. (operator_index m ''description'' @ '' String(s) found:'') #
                 map (\<lambda>s. CHR 0x09 # s) (sorted_list_of_fset (get_found_strings m))) ms)\<rparr>))"
proof (intro conjI)
  show "rule_file (fst (snd (scan ops p pe summ lvl f sh err))) = rule_file p"
    by (rule scan_rule_file)
next
  show "let st = analyze_calls (ClamavPlugin_analyze ops) p pes err;
        ms = fst (scan_file ops (snd (load_rules ops (engine (fst st)) (rule_file p)))
                   (get_path pe))
    in rule_file (fst st) = rule_file p
     \<and> (fst (load_rules ops (engine (fst st)) (rule_file p)) \<and> ms \<noteq> [] \<longrightarrow>
          fst (ClamavPlugin_analyze ops (fst st) pe (snd st)) =
            \<lparr>level = MALICIOUS, summary = Some ''Matching ClamAV signature(s):'',
             information = map (\<lambda>m. operator_index m ''signature'') ms\<rparr>)"
    by (rule later_call_plain) (simp add: ClamavPlugin_analyze_def)
next
  show "let st = analyze_calls (CompilerDetectionPlugin_analyze ops) p pes err;
        ms = fst (scan_file ops (snd (load_rules ops (engine (fst st)) (rule_file p)))
                   (get_path pe))
    in rule_file (fst st) = rule_file p
     \<and> (fst (load_rules ops (engine (fst st)) (rule_file p)) \<and> ms \<noteq> [] \<longrightarrow>
          fst (CompilerDetectionPlugin_analyze ops (fst st) pe (snd st)) =
            \<lparr>level = NO_OPINION, summary = Some ''Matching compiler(s):'',
             information = map (\<lambda>m. operator_index m ''description'') ms\<rparr>)"
    by (rule later_call_plain) (simp add: CompilerDetectionPlugin_analyze_def)
next
  show "let st = analyze_calls (PEiDPlugin_analyze ops) p pes err;
        ms = fst (scan_file ops (snd (load_rules ops (engine (fst st)) (rule_file p)))
                   (get_path pe))
    in rule_file (fst st) = rule_file p
     \<and> (fst (load_rules ops (engine (fst st)) (rule_file p)) \<and> ms \<noteq> [] \<longrightarrow>
          fst (PEiDPlugin_analyze ops (fst st) pe (snd st)) =
            \<lparr>level = SUSPICIOUS, summary = Some ''PEiD Signature:'',
             information = map (\<lambda>m. operator_index m ''packer_name'') ms\<rparr>)"
    by (rule later_call_plain) (simp add: PEiDPlugin_analyze_def)
next
  show "let st = analyze_calls (SuspiciousStringsPlugin_analyze ops) p pes err;
        ms = fst (scan_file ops (snd (load_rules ops (engine (fst st)) (rule_file p)))
                   (get_path pe))
    in rule_file (fst st) = rule_file p
     \<and> (fst (load_rules ops (engine (fst st)) (rule_file p)) \<and> ms \<noteq> [] \<longrightarrow>
          fst (SuspiciousStringsPlugin_analyze ops (fst st) pe (snd st)) =
            \<lparr>level = SUSPICIOUS,
             summary = Some ''Strings found in the binary may indicate undesirable behavior:'',
             information =
               concat (map (\<lambda>m. (operator_index m ''description'' @ '' String(s) found:'') #
                 map (\<lambda>s. CHR 0x09 # s) (sorted_list_of_fset (get_found_strings m))) ms)\<rparr>)"
    by (rule later_call_strings) (simp add: SuspiciousStringsPlugin_analyze_def)
qed

theorem scan_keeps_configuration_witness:
  "rule_file (fst (analyze_calls (ClamavPlugin_analyze (late_engine [eicar_match]))
       (ClamavPlugin 0) [sample_pe, sample_pe] [])) = ''yara_rules/clamav.yara''
   \<and> fst (load_rules (late_engine [eicar_match]) 2 ''yara_rules/clamav.yara'')
   \<and> fst (scan_file (late_engine [eicar_match]) 3 ''sample.exe'') \<noteq> []
   \<and> fst (ClamavPlugin_analyze (late_engine [eicar_match]) (ClamavPlugin 2) sample_pe
        [''Could not load yara_rules/clamav.yara!'']) =
       \<lparr>level = MALICIOUS, summary = Some ''Matching ClamAV signature(s):'',
        information = [''EICAR-Test'']\<rparr>"
proof -
  let ?E = "late_engine [eicar_match]"
  have l: "fst (load_rules ?E 2 ''yara_rules/clamav.yara'')"
    by (simp add: late_engine_def)
  have n: "fst (scan_file ?E 3 ''sample.exe'') \<noteq> []"
    by (simp add: late_engine_def)
  have e: "engine (ClamavPlugin (2::nat)) = 2"
    and r: "rule_file (ClamavPlugin (0::nat)) = ''yara_rules/clamav.yara''"
    and r2: "rule_file (ClamavPlugin (2::nat)) = ''yara_rules/clamav.yara''"
    and s: "snd (load_rules ?E 2 ''yara_rules/clamav.yara'') = 3"
    and g: "get_path sample_pe = ''sample.exe''"
    and m: "fst (scan_file ?E 3 ''sample.exe'') = [eicar_match]"
    and o: "operator_index eicar_match ''signature'' = ''EICAR-Test''"
    by (simp_all add: ClamavPlugin_def YaraPlugin_def late_engine_def sample_pe_def
          eicar_match_def)
  from scan_keeps_configuration [where ops = ?E and p = "ClamavPlugin 0"
      and pes = "[sample_pe, sample_pe]" and err = "[]" and pe = sample_pe,
      THEN conjunct2, THEN conjunct1]
  have "rule_file (ClamavPlugin (2::nat)) = ''yara_rules/clamav.yara''
      \<and> fst (ClamavPlugin_analyze ?E (ClamavPlugin 2) sample_pe
             [''Could not load yara_rules/clamav.yara!'']) =
          \<lparr>level = MALICIOUS, summary = Some ''Matching ClamAV signature(s):'',
           information = [''EICAR-Test'']\<rparr>"
    by (simp only: Let_def late_two_calls fst_conv snd_conv e r s g m o l) (simp add: o)
  with l n show ?thesis
    by (simp only: late_two_calls fst_conv) simp
qed

end
